theory Spec2Isabelle
  imports Complex_Main "HOL-Library.Char_ord" "HOL-Library.List_Lexorder" "HOL-Library.Multiset"
begin

section \<open>Calendar dates\<close>

text \<open>
  The source works with Python's \<^verbatim>\<open>datetime.date\<close>. A date is a triple of
  unbounded integers; the constructor \<^verbatim>\<open>date(y, m, d)\<close> raises
  \<^verbatim>\<open>ValueError\<close> unless \<open>1 \<le> y \<le> 9999\<close>, \<open>1 \<le> m \<le> 12\<close> and
  \<open>1 \<le> d \<le> days_in_month y m\<close>.
\<close>

datatype error = ValueError | AttributeError | TypeError

record date =
  year :: int
  month :: int
  day :: int

definition is_leap :: "int \<Rightarrow> bool" where
  "is_leap y = (y mod 4 = 0 \<and> (y mod 100 \<noteq> 0 \<or> y mod 400 = 0))"

text \<open>Month lengths as the date library has them.\<close>

definition days_in_month :: "int \<Rightarrow> int \<Rightarrow> int" where
  "days_in_month y m =
     (if m = 2 then (if is_leap y then 29 else 28)
      else if m = 4 \<or> m = 6 \<or> m = 9 \<or> m = 11 then 30 else 31)"

definition valid_date :: "date \<Rightarrow> bool" where
  "valid_date d =
     (1 \<le> year d \<and> year d \<le> 9999 \<and> 1 \<le> month d \<and> month d \<le> 12 \<and>
      1 \<le> day d \<and> day d \<le> days_in_month (year d) (month d))"

text \<open>The constructor \<^verbatim>\<open>date(y, m, d)\<close>.\<close>

definition py_date :: "int \<Rightarrow> int \<Rightarrow> int \<Rightarrow> error + date" where
  "py_date y m d =
     (if 1 \<le> y \<and> y \<le> 9999 \<and> 1 \<le> m \<and> m \<le> 12 \<and> 1 \<le> d \<and> d \<le> days_in_month y m
      then Inr \<lparr>year = y, month = m, day = d\<rparr>
      else Inl ValueError)"

text \<open>Comparison of dates: lexicographic on year, month, day.\<close>

definition date_le :: "date \<Rightarrow> date \<Rightarrow> bool" where
  "date_le a b =
     (year a < year b \<or>
      (year a = year b \<and> (month a < month b \<or> (month a = month b \<and> day a \<le> day b))))"

section \<open>The last-quarter helper (main.py, lines 87 to 116)\<close>

text \<open>
  \<^verbatim>\<open>q = (ref.month - 1) // 3 + 1\<close>, then the previous quarter, its year and its
  first month. Python's \<^verbatim>\<open>//\<close> is floor division, as \<open>div\<close> on \<open>int\<close>.
\<close>

definition quarter_of :: "date \<Rightarrow> int" where
  "quarter_of ref = (month ref - 1) div 3 + 1"

definition last_q :: "date \<Rightarrow> int" where
  "last_q ref = (if quarter_of ref > 1 then quarter_of ref - 1 else 4)"

definition last_q_year :: "date \<Rightarrow> int" where
  "last_q_year ref = (if quarter_of ref > 1 then year ref else year ref - 1)"

definition start_month :: "date \<Rightarrow> int" where
  "start_month ref = 3 * (last_q ref - 1) + 1"

text \<open>
  The hand-written month table of lines 96 to 101. Its value \<^verbatim>\<open>month_days\<close> is
  computed and never read again.
\<close>

definition month_days :: "int \<Rightarrow> int \<Rightarrow> int" where
  "month_days yr sm =
     (if sm \<in> set [1, 3, 5, 7, 8, 10, 12] then
        (case map_of [(1, 31), (3, 30 + 1), (5, 31), (7, 31), (8, 31), (10, 31), (12, 31)] sm of
           Some n \<Rightarrow> n | None \<Rightarrow> 0)
      else if sm = 2 then
        (if yr mod 4 = 0 \<and> (yr mod 100 \<noteq> 0 \<or> yr mod 400 = 0) then 29 else 28)
      else 30)"

text \<open>The day number computed for the last month \<^verbatim>\<open>em\<close> of the quarter (lines 107 to 112).\<close>

definition end_day :: "int \<Rightarrow> int \<Rightarrow> int" where
  "end_day yr em =
     (if em \<in> set [1, 3, 5, 7, 8, 10, 12] then 31
      else if em = 2 then
        (if yr mod 4 = 0 \<and> (yr mod 100 \<noteq> 0 \<or> yr mod 400 = 0) then 29 else 28)
      else 30)"

text \<open>
  \<^verbatim>\<open>parse_last_quarter(ref=None)\<close>. The first argument is the clock
  (\<^verbatim>\<open>date.today()\<close>), read when no reference date is given. Both calls of the date
  constructor can raise.
\<close>

definition parse_last_quarter :: "date \<Rightarrow> date option \<Rightarrow> error + (date \<times> date)" where
  "parse_last_quarter today ref_opt =
     (let ref = (case ref_opt of None \<Rightarrow> today | Some r \<Rightarrow> r);
          yr = last_q_year ref;
          sm = start_month ref
      in case py_date yr sm 1 of
           Inl e \<Rightarrow> Inl e
         | Inr start \<Rightarrow>
             (let md = month_days yr sm
              in if sm \<in> set [1, 4, 7, 10] then
                   (let em = sm + 2
                    in case py_date yr em (end_day yr em) of
                         Inl e \<Rightarrow> Inl e
                       | Inr end_d \<Rightarrow> Inr (start, end_d))
                 else Inr (start, start)))"

text \<open>
  The specification's reading of a calendar quarter, used to state what the helper has to
  return: quarters are numbered consecutively through the years.
\<close>

definition spec_quarter_index :: "date \<Rightarrow> int" where
  "spec_quarter_index d = 4 * year d + (month d - 1) div 3"

section \<open>Strings\<close>

text \<open>
  Questions and column values are Python strings. They are modelled as \<open>string\<close>, a
  character being one of the code points 0 to 255; text with other characters is outside the
  model.
\<close>

definition upper_chars :: string where
  "upper_chars = ''ABCDEFGHIJKLMNOPQRSTUVWXYZ''"

definition lower_chars :: string where
  "lower_chars = ''abcdefghijklmnopqrstuvwxyz''"

text \<open>
  The capital letters above 127 (0xC0 to 0xDE without the multiplication sign 0xD7) and
  their small letters, 32 code points higher.
\<close>

definition upper_latin :: string where
  "upper_latin = [
      CHR 0xC0, CHR 0xC1, CHR 0xC2, CHR 0xC3, CHR 0xC4, CHR 0xC5, CHR 0xC6, CHR 0xC7,
      CHR 0xC8, CHR 0xC9, CHR 0xCA, CHR 0xCB, CHR 0xCC, CHR 0xCD, CHR 0xCE, CHR 0xCF,
      CHR 0xD0, CHR 0xD1, CHR 0xD2, CHR 0xD3, CHR 0xD4, CHR 0xD5, CHR 0xD6, CHR 0xD8,
      CHR 0xD9, CHR 0xDA, CHR 0xDB, CHR 0xDC, CHR 0xDD, CHR 0xDE]"

definition lower_latin :: string where
  "lower_latin = [
      CHR 0xE0, CHR 0xE1, CHR 0xE2, CHR 0xE3, CHR 0xE4, CHR 0xE5, CHR 0xE6, CHR 0xE7,
      CHR 0xE8, CHR 0xE9, CHR 0xEA, CHR 0xEB, CHR 0xEC, CHR 0xED, CHR 0xEE, CHR 0xEF,
      CHR 0xF0, CHR 0xF1, CHR 0xF2, CHR 0xF3, CHR 0xF4, CHR 0xF5, CHR 0xF6, CHR 0xF8,
      CHR 0xF9, CHR 0xFA, CHR 0xFB, CHR 0xFC, CHR 0xFD, CHR 0xFE]"

text \<open>\<^verbatim>\<open>c.lower()\<close> of one character.\<close>

definition char_lower :: "char \<Rightarrow> char" where
  "char_lower c =
     (case map_of (zip (upper_chars @ upper_latin) (lower_chars @ lower_latin)) c of
        Some d \<Rightarrow> d | None \<Rightarrow> c)"

text \<open>The capital of an ASCII letter.\<close>

definition char_upper :: "char \<Rightarrow> char" where
  "char_upper c = (case map_of (zip lower_chars upper_chars) c of Some d \<Rightarrow> d | None \<Rightarrow> c)"

text \<open>The character class \<^verbatim>\<open>[a-zA-Z]\<close>.\<close>

definition is_alpha :: "char \<Rightarrow> bool" where
  "is_alpha c = (c \<in> set lower_chars \<or> c \<in> set upper_chars)"

text \<open>
  The character class \<^verbatim>\<open>\s\<close> of a text pattern: space, tab, line feed, vertical tab, form
  feed, carriage return, the four separators 0x1C to 0x1F, next line 0x85 and the
  no-break space 0xA0.
\<close>

definition is_space :: "char \<Rightarrow> bool" where
  "is_space c = (c \<in> set [CHR '' '', CHR 0x09, CHR 0x0A, CHR 0x0B, CHR 0x0C, CHR 0x0D,
                           CHR 0x1C, CHR 0x1D, CHR 0x1E, CHR 0x1F, CHR 0x85, CHR 0xA0])"

text \<open>\<^verbatim>\<open>s.lower()\<close>.\<close>

definition str_lower :: "string \<Rightarrow> string" where
  "str_lower s = map char_lower s"

text \<open>
  \<^verbatim>\<open>s.title()\<close> on ASCII text: a letter that follows a letter is lowered, any other letter
  is raised. The router applies it to the word captured by \<^verbatim>\<open>[a-zA-Z]+\<close> and to the column
  names only.
\<close>

fun title_from :: "bool \<Rightarrow> string \<Rightarrow> string" where
  "title_from prev [] = []"
| "title_from prev (c # cs) =
     (if is_alpha c then (if prev then char_lower c else char_upper c) # title_from True cs
      else c # title_from False cs)"

definition str_title :: "string \<Rightarrow> string" where
  "str_title s = title_from False s"

text \<open>\<^verbatim>\<open>s.replace('_', ' ')\<close>.\<close>

definition underscores_to_spaces :: "string \<Rightarrow> string" where
  "underscores_to_spaces s = map (\<lambda>c. if c = CHR ''_'' then CHR '' '' else c) s"

text \<open>\<^verbatim>\<open>sep.join(bits)\<close>.\<close>

fun str_join :: "string \<Rightarrow> string list \<Rightarrow> string" where
  "str_join sep [] = []"
| "str_join sep [b] = b"
| "str_join sep (b # c # bs) = b @ sep @ str_join sep (c # bs)"

text \<open>\<^verbatim>\<open>s.startswith(p)\<close> and the substring test \<^verbatim>\<open>p in s\<close>.\<close>

fun starts_with :: "string \<Rightarrow> string \<Rightarrow> bool" where
  "starts_with [] s = True"
| "starts_with (p # ps) [] = False"
| "starts_with (p # ps) (c # cs) = (p = c \<and> starts_with ps cs)"

fun str_in :: "string \<Rightarrow> string \<Rightarrow> bool" where
  "str_in p [] = starts_with p []"
| "str_in p (c # cs) = (starts_with p (c # cs) \<or> str_in p cs)"

text \<open>
  \<^verbatim>\<open>re.search(r"rvp\s+([a-zA-Z]+)", s)\<close>, returning group 1 of the leftmost match. At a
  given position the pattern matches when the text reads \<^verbatim>\<open>rvp\<close>, then at least one
  white-space character, then at least one letter; both runs are taken as long as they go,
  and since no character is both white space and a letter, shorter runs cannot match
  where the longest do not.
\<close>

definition match_rvp_at :: "string \<Rightarrow> string option" where
  "match_rvp_at s =
     (if starts_with ''rvp'' s then
        (let rest = drop 3 s;
             ws = takeWhile is_space rest;
             word = takeWhile is_alpha (dropWhile is_space rest)
         in if ws \<noteq> [] \<and> word \<noteq> [] then Some word else None)
      else None)"

fun re_search_rvp :: "string \<Rightarrow> string option" where
  "re_search_rvp [] = None"
| "re_search_rvp (c # cs) =
     (case match_rvp_at (c # cs) of Some w \<Rightarrow> Some w | None \<Rightarrow> re_search_rvp cs)"

section \<open>Numbers and their formatting\<close>

text \<open>
  The metric columns are columns of whole numbers: the reader types a column of integer
  literals as 64-bit signed integers. (A column with decimal fractions is a column of binary
  floating-point numbers, whose arithmetic is outside this model.) A cell is a Python
  \<open>int\<close> in the 64-bit range; a column sum is computed in 64 bits and wraps around.
\<close>

definition wrap64 :: "int \<Rightarrow> int" where
  "wrap64 n = (n + 2 ^ 63) mod 2 ^ 64 - 2 ^ 63"

text \<open>\<^verbatim>\<open>column.sum()\<close> of a 64-bit integer column.\<close>

definition sum64 :: "int list \<Rightarrow> int" where
  "sum64 xs = wrap64 (sum_list xs)"

text \<open>\<^verbatim>\<open>series.round(2)\<close>, on one value: rounding an integer column changes nothing.\<close>

definition round2 :: "int \<Rightarrow> int" where
  "round2 x = x"

text \<open>
  \<^verbatim>\<open>float(n)\<close> for a 64-bit integer \<open>n\<close>: the nearest number with 53 significant bits, ties
  to the even one. The result is a whole number again and is given as such. \<open>float_shift n\<close>
  is the number of low bits that do not fit.
\<close>

definition float_shift :: "int \<Rightarrow> nat" where
  "float_shift n = length (takeWhile (\<lambda>k. 2 ^ (53 + k) \<le> \<bar>n\<bar>) [0 ..< 11])"

definition float_of_int64 :: "int \<Rightarrow> int" where
  "float_of_int64 n =
     (let d = 2 ^ float_shift n; q = n div d; r = n mod d
      in if 2 * r < d then q * d
         else if d < 2 * r then (q + 1) * d
         else if even q then q * d else (q + 1) * d)"

definition digit_char :: "nat \<Rightarrow> char" where
  "digit_char n = ''0123456789'' ! (n mod 10)"

fun show_nat :: "nat \<Rightarrow> string" where
  "show_nat n = (if n < 10 then [digit_char n] else show_nat (n div 10) @ [digit_char n])"

declare show_nat.simps [simp del]

definition show_int :: "int \<Rightarrow> string" where
  "show_int i = (if i < 0 then ''-'' @ show_nat (nat (- i)) else show_nat (nat i))"

definition zero_pad :: "nat \<Rightarrow> string \<Rightarrow> string" where
  "zero_pad w s = replicate (w - length s) (CHR ''0'') @ s"

text \<open>The thousands separators of the format \<^verbatim>\<open>,\<close>, on the reversed digits.\<close>

fun commas_rev :: "string \<Rightarrow> string" where
  "commas_rev (a # b # c # d # ds) = a # b # c # CHR '','' # commas_rev (d # ds)"
| "commas_rev ds = ds"

text \<open>
  The format \<^verbatim>\<open>{x:,.2f}\<close> of a floating-point number \<open>x\<close> whose value is the whole number
  \<open>f\<close>: the sign, the digits with thousands separators, a point and two zeros.
\<close>

definition fmt_2f :: "int \<Rightarrow> string" where
  "fmt_2f f =
     (if f < 0 then ''-'' else []) @ rev (commas_rev (rev (show_nat (nat \<bar>f\<bar>)))) @ ''.00''"

section \<open>The request, the data and the response\<close>

text \<open>
  The values of the caller's context (\<^verbatim>\<open>Dict[str, Any]\<close>, decoded from JSON): null,
  booleans, integers and strings. Numbers with a fraction, arrays and objects are not
  modelled.
\<close>

datatype pyval = PyNone | PyBool bool | PyInt int | PyStr string

fun truthy :: "pyval \<Rightarrow> bool" where
  "truthy PyNone = False"
| "truthy (PyBool b) = b"
| "truthy (PyInt i) = (i \<noteq> 0)"
| "truthy (PyStr s) = (s \<noteq> [])"

fun py_str :: "pyval \<Rightarrow> string" where
  "py_str PyNone = ''None''"
| "py_str (PyBool b) = (if b then ''True'' else ''False'')"
| "py_str (PyInt i) = show_int i"
| "py_str (PyStr s) = s"

text \<open>
  A row of the data frame, with the columns \<^verbatim>\<open>load_data\<close> documents. The region owner
  of the specification is the column \<^verbatim>\<open>rvp\<close>. The snapshot is a list of rows, all of whose
  cells are present.
\<close>

record row =
  date :: date
  purchases :: int
  redemptions :: int
  assets :: int
  wholesaler :: string
  advisor :: string
  mandate_name :: string
  fund_type :: string
  rvp :: string

text \<open>The column names the router can select, and the columns they name.\<close>

datatype metric = Redemptions | Purchases | Assets

fun metric_name :: "metric \<Rightarrow> string" where
  "metric_name Redemptions = ''redemptions''"
| "metric_name Purchases = ''purchases''"
| "metric_name Assets = ''assets''"

fun metric_col :: "metric \<Rightarrow> row \<Rightarrow> int" where
  "metric_col Redemptions r = redemptions r"
| "metric_col Purchases r = purchases r"
| "metric_col Assets r = assets r"

datatype group_field = Fund_type | Wholesaler | Advisor | Mandate_name

fun group_field_name :: "group_field \<Rightarrow> string" where
  "group_field_name Fund_type = ''fund_type''"
| "group_field_name Wholesaler = ''wholesaler''"
| "group_field_name Advisor = ''advisor''"
| "group_field_name Mandate_name = ''mandate_name''"

fun group_field_col :: "group_field \<Rightarrow> row \<Rightarrow> string" where
  "group_field_col Fund_type r = fund_type r"
| "group_field_col Wholesaler r = wholesaler r"
| "group_field_col Advisor r = advisor r"
| "group_field_col Mandate_name r = mandate_name r"

text \<open>\<^verbatim>\<open>AskResponse\<close> and the one entry of its \<^verbatim>\<open>datasets\<close>.\<close>

record dataset =
  label :: string
  data :: "int list"

record ask_response =
  resp_type :: string
  resp_title :: "string option"
  resp_text :: "string option"
  resp_labels :: "string list option"
  resp_datasets :: "dataset list option"
  resp_table :: "(string \<times> pyval) list list option"

section \<open>The router (main.py, lines 119 to 197)\<close>

text \<open>
  \<^verbatim>\<open>route_question\<close> is one function in the source. Its first half reads the lower-cased
  question and the context and fixes five values (the filter value \<^verbatim>\<open>rvp\<close>, whether the
  question names the last quarter, \<^verbatim>\<open>group_field\<close>, \<^verbatim>\<open>metric\<close> and whether a trend is
  asked for); its second half computes on the data frame from these values alone. The model
  keeps the two halves apart: one function per value, then \<open>answer\<close>.
\<close>

text \<open>
  Lines 124 to 129. The context is \<^verbatim>\<open>None\<close> or a dictionary; an empty dictionary is
  falsy, and has no key \<^verbatim>\<open>rvp\<close> either.
\<close>

definition find_rvp :: "string \<Rightarrow> (string \<rightharpoonup> pyval) option \<Rightarrow> string option" where
  "find_rvp q_low user_ctx =
     (case re_search_rvp q_low of
        Some w \<Rightarrow> Some (str_title w)
      | None \<Rightarrow>
          (case user_ctx of
             None \<Rightarrow> None
           | Some ctx \<Rightarrow>
               (case ctx ''rvp'' of
                  None \<Rightarrow> None
                | Some v \<Rightarrow> if truthy v then Some (py_str v) else None)))"

text \<open>Lines 135 and 166.\<close>

definition wants_last_quarter :: "string \<Rightarrow> bool" where
  "wants_last_quarter q_low = (str_in ''last quarter'' q_low \<or> str_in ''past quarter'' q_low)"

text \<open>Lines 141 to 149.\<close>

definition find_group_field :: "string \<Rightarrow> group_field option" where
  "find_group_field q_low =
     (if str_in ''by fund type'' q_low then Some Fund_type
      else if str_in ''by wholesaler'' q_low then Some Wholesaler
      else if str_in ''by advisor'' q_low then Some Advisor
      else if str_in ''by mandate'' q_low \<or> str_in ''by mandate name'' q_low then Some Mandate_name
      else None)"

text \<open>Lines 152 to 161.\<close>

definition find_metric :: "string \<Rightarrow> metric" where
  "find_metric q_low =
     (if str_in ''redemption'' q_low then Redemptions
      else if str_in ''purchase'' q_low then Purchases
      else if str_in ''asset'' q_low then Assets
      else Purchases)"

text \<open>Line 184.\<close>

definition wants_trend :: "string \<Rightarrow> bool" where
  "wants_trend q_low =
     (str_in ''trend'' q_low \<or> str_in ''over time'' q_low \<or> str_in ''by month'' q_low)"

text \<open>
  Lines 131 and 132: \<^verbatim>\<open>if rvp:\<close> holds for a string that is not empty; the rows kept are
  those whose \<^verbatim>\<open>rvp\<close> equals the value once both are lower-cased.
\<close>

definition filter_rvp :: "string option \<Rightarrow> row list \<Rightarrow> row list" where
  "filter_rvp rvp_opt df =
     (case rvp_opt of
        None \<Rightarrow> df
      | Some v \<Rightarrow> if v \<noteq> [] then filter (\<lambda>r. str_lower (rvp r) = str_lower v) df else df)"

text \<open>
  Lines 135 to 138: the window is computed from the clock, then the column \<^verbatim>\<open>date\<close> is
  read through \<^verbatim>\<open>.dt\<close>. The reader gives that column the date type only when the
  snapshot has a row; on the snapshot without rows the column is untyped and \<^verbatim>\<open>.dt\<close> raises
  \<^verbatim>\<open>AttributeError\<close>. The flag \<open>typed\<close> says that the snapshot has a row; filtering rows
  away keeps the type of the column.
\<close>

definition filter_window :: "bool \<Rightarrow> date \<Rightarrow> bool \<Rightarrow> row list \<Rightarrow> error + row list" where
  "filter_window typed today lq df =
     (if lq then
        (case parse_last_quarter today None of
           Inl e \<Rightarrow> Inl e
         | Inr (start, end_d) \<Rightarrow>
             if typed
             then Inr (filter (\<lambda>r. date_le start (date r) \<and> date_le (date r) end_d) df)
             else Inl AttributeError)
      else Inr df)"

text \<open>Lines 163 to 170.\<close>

definition build_title :: "metric \<Rightarrow> string option \<Rightarrow> bool \<Rightarrow> group_field option \<Rightarrow> string" where
  "build_title m rvp_opt lq gf =
     (let bits0 = [str_title (metric_name m)];
          bits1 = (case rvp_opt of
                     None \<Rightarrow> bits0
                   | Some v \<Rightarrow> if v \<noteq> [] then bits0 @ [''for RVP '' @ v] else bits0);
          bits2 = (if lq then bits1 @ [''(Last Quarter)''] else bits1);
          bits3 = (case gf of
                     None \<Rightarrow> bits2
                   | Some g \<Rightarrow>
                       bits2 @ [''by '' @ str_title (underscores_to_spaces (group_field_name g))])
      in str_join '' '' bits3)"

text \<open>
  Line 173: \<^verbatim>\<open>groupby(group_field)[metric].sum()\<close> gives one row per distinct key, keys in
  ascending order; \<^verbatim>\<open>sort_values(metric, ascending=False)\<close> then orders the rows by
  descending sum. The order of rows with equal sums is the sorting routine's; the model
  keeps them in key order, and no property below depends on it.
\<close>

definition group_sums :: "(row \<Rightarrow> string) \<Rightarrow> (row \<Rightarrow> int) \<Rightarrow> row list \<Rightarrow> (string \<times> int) list" where
  "group_sums key val df =
     map (\<lambda>k. (k, sum64 (map val (filter (\<lambda>r. key r = k) df)))) (sort (remdups (map key df)))"

definition sort_desc :: "(string \<times> int) list \<Rightarrow> (string \<times> int) list" where
  "sort_desc agg = sort_key (\<lambda>p. - snd p) agg"

text \<open>
  Line 185: \<^verbatim>\<open>resample("M", on="date")[metric].sum()\<close> makes one bin for every calendar month
  from the month of the earliest row to the month of the latest row, in chronological
  order, and sums the metric of the rows of each bin; a bin without rows sums to 0. A frame
  without rows has no bins when its column \<^verbatim>\<open>date\<close> has the date type; on the snapshot
  without rows the column is untyped and \<^verbatim>\<open>resample\<close> raises \<^verbatim>\<open>TypeError\<close>. Months are
  counted from year 0.
\<close>

definition month_index :: "date \<Rightarrow> int" where
  "month_index d = year d * 12 + (month d - 1)"

definition month_bins :: "(row \<Rightarrow> int) \<Rightarrow> row list \<Rightarrow> (int \<times> int) list" where
  "month_bins val df =
     (case map (\<lambda>r. month_index (date r)) df of
        [] \<Rightarrow> []
      | i # rest \<Rightarrow>
          map (\<lambda>j. (j, sum64 (map val (filter (\<lambda>r. month_index (date r) = j) df))))
            [fold min rest i .. fold max rest i])"

definition resample_month_sum :: "bool \<Rightarrow> (row \<Rightarrow> int) \<Rightarrow> row list \<Rightarrow> error + (int \<times> int) list" where
  "resample_month_sum typed val df = (if typed then Inr (month_bins val df) else Inl TypeError)"

text \<open>Line 186: \<^verbatim>\<open>strftime("%Y-%m")\<close> of the bin of a month index.\<close>

definition month_label :: "int \<Rightarrow> string" where
  "month_label j =
     zero_pad 4 (show_nat (nat (j div 12))) @ ''-'' @ zero_pad 2 (show_nat (nat (j mod 12 + 1)))"

text \<open>Lines 131 to 138 and 163 to 197, on the snapshot \<open>df0\<close> that \<^verbatim>\<open>get_df\<close> returns.\<close>

definition answer ::
  "row list \<Rightarrow> date \<Rightarrow> string option \<Rightarrow> bool \<Rightarrow> group_field option \<Rightarrow> metric \<Rightarrow> bool \<Rightarrow>
   error + ask_response" where
  "answer df0 today rvp_opt lq gf m trend =
     (case filter_window (df0 \<noteq> []) today lq (filter_rvp rvp_opt df0) of
        Inl e \<Rightarrow> Inl e
      | Inr df \<Rightarrow>
          (let title = build_title m rvp_opt lq gf
           in case gf of
                Some g \<Rightarrow>
                  (let agg = sort_desc (group_sums (group_field_col g) (metric_col m) df)
                   in Inr \<lparr>resp_type = ''chart'', resp_title = Some title, resp_text = None,
                           resp_labels = Some (map fst agg),
                           resp_datasets =
                             Some [\<lparr>label = metric_name m, data = map (\<lambda>p. round2 (snd p)) agg\<rparr>],
                           resp_table = None\<rparr>)
              | None \<Rightarrow>
                  if trend then
                    (case resample_month_sum (df0 \<noteq> []) (metric_col m) df of
                       Inl e \<Rightarrow> Inl e
                     | Inr ts \<Rightarrow>
                         Inr \<lparr>resp_type = ''chart'', resp_title = Some (title @ '' (Monthly)''),
                              resp_text = None,
                              resp_labels = Some (map (\<lambda>p. month_label (fst p)) ts),
                              resp_datasets =
                                Some [\<lparr>label = metric_name m, data = map (\<lambda>p. round2 (snd p)) ts\<rparr>],
                              resp_table = None\<rparr>)
                  else
                    (let total = (if df \<noteq> [] then float_of_int64 (sum64 (map (metric_col m) df)) else 0)
                     in Inr \<lparr>resp_type = ''text'', resp_title = Some title,
                             resp_text = Some (str_title (metric_name m) @ '' = '' @ fmt_2f total),
                             resp_labels = None, resp_datasets = None, resp_table = None\<rparr>)))"

definition route_question ::
  "row list \<Rightarrow> date \<Rightarrow> string \<Rightarrow> (string \<rightharpoonup> pyval) option \<Rightarrow> error + ask_response" where
  "route_question df0 today q user_ctx =
     (let q_low = str_lower q
      in answer df0 today (find_rvp q_low user_ctx) (wants_last_quarter q_low)
           (find_group_field q_low) (find_metric q_low) (wants_trend q_low))"

section \<open>Sample data\<close>

text \<open>Two rows on which the model is run in the examples below.\<close>

definition sample_rows :: "row list" where
  "sample_rows =
     [\<lparr>date = \<lparr>year = 2024, month = 1, day = 10\<rparr>, purchases = 40, redemptions = 5,
        assets = 100, wholesaler = ''w1'', advisor = ''a1'', mandate_name = ''m1'',
        fund_type = ''equity'', rvp = ''Alice''\<rparr>,
      \<lparr>date = \<lparr>year = 2024, month = 3, day = 10\<rparr>, purchases = 30, redemptions = 7,
        assets = 100, wholesaler = ''w2'', advisor = ''a1'', mandate_name = ''m1'',
        fund_type = ''bond'', rvp = ''ALICE''\<rparr>]"

text \<open>One row whose purchases need more than 53 bits.\<close>

definition sample_big_rows :: "row list" where
  "sample_big_rows =
     [\<lparr>date = \<lparr>year = 2024, month = 1, day = 10\<rparr>, purchases = 9007199254740993,
        redemptions = 0, assets = 0, wholesaler = ''w1'', advisor = ''a1'',
        mandate_name = ''m1'', fund_type = ''equity'', rvp = ''Alice''\<rparr>]"

definition sample_today :: date where
  "sample_today = \<lparr>year = 2024, month = 5, day = 15\<rparr>"

section \<open>Quantities the properties are stated with\<close>

text \<open>The sum of a metric over the rows of one group: what a label of the grouped chart stands for.\<close>

definition group_total :: "(row \<Rightarrow> string) \<Rightarrow> (row \<Rightarrow> int) \<Rightarrow> row list \<Rightarrow> string \<Rightarrow> int" where
  "group_total key val rows k = sum64 (map val (filter (\<lambda>r. key r = k) rows))"



section \<open>Properties of the last-quarter helper\<close>

lemma month_cases:
  assumes "1 \<le> (m::int)" "m \<le> 12"
  shows "m = 1 \<or> m = 2 \<or> m = 3 \<or> m = 4 \<or> m = 5 \<or> m = 6 \<or> m = 7 \<or> m = 8 \<or> m = 9 \<or> m = 10 \<or> m = 11 \<or> m = 12"
  using assms by arith

lemma quarter_digit:
  assumes "1 \<le> (m::int)" "m \<le> 12"
  shows "(m - 1) div 3 = (if m \<le> 3 then 0 else if m \<le> 6 then 1 else if m \<le> 9 then 2 else 3)"
  using month_cases[OF assms] by auto

lemma base4_unique:
  assumes "0 \<le> a" "a \<le> 3" "0 \<le> b" "b \<le> 3"
  shows "(4 * y1 + a = 4 * y2 + b) = (y1 = y2 \<and> a = (b::int))"
  using assms by presburger

lemma qidx_iff:
  assumes "1 \<le> month d" "month d \<le> 12" "sm = 1 \<or> sm = 4 \<or> sm = 7 \<or> sm = 10"
  shows "(spec_quarter_index d = 4 * y + (sm - 1) div 3) = (year d = y \<and> sm \<le> month d \<and> month d \<le> sm + 2)"
proof -
  let ?a = "(month d - 1) div 3" and ?b = "(sm - 1) div 3"
  have a: "0 \<le> ?a \<and> ?a \<le> 3" using assms(1,2) by (simp add: quarter_digit)
  have b: "0 \<le> ?b \<and> ?b \<le> 3" using assms(3) by auto
  have "(spec_quarter_index d = 4 * y + ?b) = (year d = y \<and> ?a = ?b)"
    unfolding spec_quarter_index_def using a b by (simp add: base4_unique)
  moreover have "(?a = ?b) = (sm \<le> month d \<and> month d \<le> sm + 2)"
    using assms(3) month_cases[OF assms(1,2)] by (elim disjE; simp)
  ultimately show ?thesis by simp
qed

lemma start_month_cases:
  assumes "1 \<le> month ref" "month ref \<le> 12"
  shows "(month ref \<le> 3 \<and> start_month ref = 10 \<and> last_q_year ref = year ref - 1) \<or>
         (4 \<le> month ref \<and> month ref \<le> 6 \<and> start_month ref = 1 \<and> last_q_year ref = year ref) \<or>
         (7 \<le> month ref \<and> month ref \<le> 9 \<and> start_month ref = 4 \<and> last_q_year ref = year ref) \<or>
         (10 \<le> month ref \<and> start_month ref = 7 \<and> last_q_year ref = year ref)"
  using month_cases[OF assms]
  by (auto simp: start_month_def last_q_def last_q_year_def quarter_of_def)

lemma plq_value:
  assumes "1 \<le> y" "y \<le> 9999" "sm = 1 \<or> sm = 4 \<or> sm = 7 \<or> sm = 10"
    "start_month ref = sm" "last_q_year ref = y"
  shows "parse_last_quarter today (Some ref) =
     Inr (\<lparr>year = y, month = sm, day = 1\<rparr>, \<lparr>year = y, month = sm + 2, day = days_in_month y (sm + 2)\<rparr>)"
  using assms
  by (auto simp: parse_last_quarter_def py_date_def Let_def end_day_def days_in_month_def)

lemma interval_iff:
  assumes "valid_date d"
  shows "(date_le \<lparr>year = y, month = sm, day = 1\<rparr> d \<and>
          date_le d \<lparr>year = y, month = sm + 2, day = days_in_month y (sm + 2)\<rparr>) =
         (year d = y \<and> sm \<le> month d \<and> month d \<le> sm + 2)"
proof (cases "year d = y \<and> month d = sm + 2")
  case True
  then have "day d \<le> days_in_month y (sm + 2)"
    using assms by (simp add: valid_date_def)
  with True assms show ?thesis
    by (simp add: date_le_def valid_date_def)
next
  case False
  have "1 \<le> day d" using assms by (simp add: valid_date_def)
  with False show ?thesis
    unfolding date_le_def by (simp; arith)
qed


text \<open>
  C1 (amended). For every valid reference date on or after 0001-04-01, that is, whenever
  the preceding quarter lies within the years the date type can hold,
  \<open>parse_last_quarter\<close> returns a pair of valid dates \<open>(s, e)\<close> such that a valid date
  lies in the closed interval from \<open>s\<close> to \<open>e\<close> exactly when it belongs to the calendar quarter
  immediately before the quarter of the reference date. For 2024-05-15 it returns
  (2024-01-01, 2024-03-31), and for 2024-01-15 it returns (2023-10-01, 2023-12-31).
\<close>

theorem parse_last_quarter_previous_quarter:
  assumes "valid_date ref" and "2 \<le> year ref \<or> 4 \<le> month ref"
  shows "(\<exists>s e. parse_last_quarter today (Some ref) = Inr (s, e) \<and> valid_date s \<and> valid_date e \<and>
            (\<forall>d. valid_date d \<longrightarrow>
               (date_le s d \<and> date_le d e) = (spec_quarter_index d = spec_quarter_index ref - 1))) \<and>
         parse_last_quarter today (Some \<lparr>year = 2024, month = 5, day = 15\<rparr>) =
           Inr (\<lparr>year = 2024, month = 1, day = 1\<rparr>, \<lparr>year = 2024, month = 3, day = 31\<rparr>) \<and>
         parse_last_quarter today (Some \<lparr>year = 2024, month = 1, day = 15\<rparr>) =
           Inr (\<lparr>year = 2023, month = 10, day = 1\<rparr>, \<lparr>year = 2023, month = 12, day = 31\<rparr>)"
proof -
  let ?y = "last_q_year ref" and ?sm = "start_month ref"
  let ?s = "\<lparr>year = ?y, month = ?sm, day = 1\<rparr>"
  let ?e = "\<lparr>year = ?y, month = ?sm + 2, day = days_in_month ?y (?sm + 2)\<rparr>"
  have m: "1 \<le> month ref" "month ref \<le> 12" and yr: "1 \<le> year ref" "year ref \<le> 9999"
    using assms(1) by (simp_all add: valid_date_def)
  note c = start_month_cases[OF m]
  have sm: "?sm = 1 \<or> ?sm = 4 \<or> ?sm = 7 \<or> ?sm = 10" using c by auto
  have y: "1 \<le> ?y" "?y \<le> 9999" using c yr assms(2) by auto
  have run: "parse_last_quarter today (Some ref) = Inr (?s, ?e)"
    by (rule plq_value[OF y sm refl refl])
  have vs: "valid_date ?s" using y sm by (auto simp: valid_date_def days_in_month_def)
  have ve: "valid_date ?e" using y sm by (auto simp: valid_date_def days_in_month_def)
  have idx: "spec_quarter_index ref - 1 = 4 * ?y + (?sm - 1) div 3"
    using c m by (auto simp: spec_quarter_index_def quarter_digit)
  have cover: "(date_le ?s d \<and> date_le d ?e) = (spec_quarter_index d = spec_quarter_index ref - 1)"
    if "valid_date d" for d
  proof -
    have "1 \<le> month d" "month d \<le> 12" using that by (simp_all add: valid_date_def)
    then show ?thesis
      unfolding idx using interval_iff[OF that] qidx_iff[OF _ _ sm] by simp
  qed
  have ex1: "parse_last_quarter today (Some \<lparr>year = 2024, month = 5, day = 15\<rparr>) =
           Inr (\<lparr>year = 2024, month = 1, day = 1\<rparr>, \<lparr>year = 2024, month = 3, day = 31\<rparr>)"
    by (simp add: parse_last_quarter_def py_date_def Let_def end_day_def days_in_month_def
        start_month_def last_q_def last_q_year_def quarter_of_def is_leap_def)
  have ex2: "parse_last_quarter today (Some \<lparr>year = 2024, month = 1, day = 15\<rparr>) =
           Inr (\<lparr>year = 2023, month = 10, day = 1\<rparr>, \<lparr>year = 2023, month = 12, day = 31\<rparr>)"
    by (simp add: parse_last_quarter_def py_date_def Let_def end_day_def days_in_month_def
        start_month_def last_q_def last_q_year_def quarter_of_def is_leap_def)
  from run vs ve cover ex1 ex2 show ?thesis by blast
qed

theorem parse_last_quarter_previous_quarter_witness:
  "valid_date \<lparr>year = 2024, month = 2, day = 29\<rparr> \<and>
   (\<exists>s e. parse_last_quarter \<lparr>year = 2026, month = 11, day = 4\<rparr> (Some \<lparr>year = 2024, month = 2, day = 29\<rparr>) = Inr (s, e) \<and>
      valid_date s \<and> valid_date e \<and>
      (\<forall>d. valid_date d \<longrightarrow>
         (date_le s d \<and> date_le d e) =
         (spec_quarter_index d = spec_quarter_index \<lparr>year = 2024, month = 2, day = 29\<rparr> - 1)))"
proof -
  have v: "valid_date \<lparr>year = 2024, month = 2, day = 29\<rparr>"
    by (simp add: valid_date_def days_in_month_def is_leap_def)
  have h: "2 \<le> year \<lparr>year = 2024, month = 2, day = 29\<rparr> \<or> 4 \<le> month \<lparr>year = 2024, month = 2, day = 29\<rparr>"
    by simp
  show ?thesis
    using v parse_last_quarter_previous_quarter[OF v h, of "\<lparr>year = 2026, month = 11, day = 4\<rparr>"]
    by blast
qed

text \<open>
  C1 as stated, for every reference date, fails in the first quarter of year 1: the
  previous quarter would start in year 0, which the date constructor rejects, so no
  interval is returned.
\<close>

theorem parse_last_quarter_year_one_counterexample:
  "\<not> (\<exists>s e. parse_last_quarter \<lparr>year = 2026, month = 11, day = 4\<rparr>
                (Some \<lparr>year = 1, month = 1, day = 15\<rparr>) = Inr (s, e))"
  by (simp add: parse_last_quarter_def py_date_def Let_def
        start_month_def last_q_def last_q_year_def quarter_of_def)

text \<open>
  C10. For every valid reference date the start month computed for the previous quarter is
  one of 1, 4, 7, 10, which is the guard of the branch that computes the end of the quarter,
  so the fallback \<open>end = start\<close> is never taken. Every pair the helper returns has a start on
  the first day of its month, at or before the end, and the end differs from the start. A pair is
  returned for every reference date outside the first quarter of year 1, where the date
  constructor raises instead.
\<close>

theorem parse_last_quarter_start_month:
  assumes "valid_date ref"
  shows "start_month ref \<in> set [1, 4, 7, 10] \<and>
         ((year ref = 1 \<and> month ref \<le> 3 \<and> parse_last_quarter today (Some ref) = Inl ValueError) \<or>
          (\<exists>s e. parse_last_quarter today (Some ref) = Inr (s, e) \<and>
                  day s = 1 \<and> date_le s e \<and> s \<noteq> e))"
proof -
  let ?y = "last_q_year ref" and ?sm = "start_month ref"
  have m: "1 \<le> month ref" "month ref \<le> 12" and yr: "1 \<le> year ref" "year ref \<le> 9999"
    using assms(1) by (simp_all add: valid_date_def)
  note c = start_month_cases[OF m]
  have sm: "?sm = 1 \<or> ?sm = 4 \<or> ?sm = 7 \<or> ?sm = 10" using c by auto
  then have guard: "?sm \<in> set [1, 4, 7, 10]" by auto
  show ?thesis
  proof (cases "year ref = 1 \<and> month ref \<le> 3")
    case True
    then have "?y = 0" using c by auto
    then have "parse_last_quarter today (Some ref) = Inl ValueError"
      by (simp add: parse_last_quarter_def py_date_def Let_def)
    with True guard show ?thesis by blast
  next
    case False
    then have y: "1 \<le> ?y" "?y \<le> 9999" using c yr by auto
    have run: "parse_last_quarter today (Some ref) =
      Inr (\<lparr>year = ?y, month = ?sm, day = 1\<rparr>,
           \<lparr>year = ?y, month = ?sm + 2, day = days_in_month ?y (?sm + 2)\<rparr>)"
      by (rule plq_value[OF y sm refl refl])
    have "date_le \<lparr>year = ?y, month = ?sm, day = 1\<rparr>
           \<lparr>year = ?y, month = ?sm + 2, day = days_in_month ?y (?sm + 2)\<rparr>"
      by (simp add: date_le_def)
    moreover have "\<lparr>year = ?y, month = ?sm, day = 1\<rparr> \<noteq>
           \<lparr>year = ?y, month = ?sm + 2, day = days_in_month ?y (?sm + 2)\<rparr>"
      by simp
    ultimately show ?thesis using run guard by auto
  qed
qed

theorem parse_last_quarter_start_month_witness:
  "valid_date \<lparr>year = 2024, month = 12, day = 31\<rparr> \<and>
   start_month \<lparr>year = 2024, month = 12, day = 31\<rparr> = 7 \<and>
   parse_last_quarter \<lparr>year = 2026, month = 11, day = 4\<rparr> (Some \<lparr>year = 2024, month = 12, day = 31\<rparr>) =
     Inr (\<lparr>year = 2024, month = 7, day = 1\<rparr>, \<lparr>year = 2024, month = 9, day = 30\<rparr>)"
proof -
  have v: "valid_date \<lparr>year = 2024, month = 12, day = 31\<rparr>"
    by (simp add: valid_date_def days_in_month_def)
  have "parse_last_quarter \<lparr>year = 2026, month = 11, day = 4\<rparr> (Some \<lparr>year = 2024, month = 12, day = 31\<rparr>) =
     Inr (\<lparr>year = 2024, month = 7, day = 1\<rparr>, \<lparr>year = 2024, month = 9, day = 30\<rparr>)"
    by (simp add: parse_last_quarter_def py_date_def Let_def end_day_def days_in_month_def
        start_month_def last_q_def last_q_year_def quarter_of_def)
  moreover have "start_month \<lparr>year = 2024, month = 12, day = 31\<rparr> = 7"
    by (simp add: start_month_def last_q_def quarter_of_def)
  ultimately show ?thesis
    using v parse_last_quarter_start_month[OF v, of "\<lparr>year = 2026, month = 11, day = 4\<rparr>"]
    by simp
qed

section \<open>Properties of the router\<close>

subsection \<open>The time window of a snapshot with rows, on a clock after March of year 1\<close>

lemma plq_None: "parse_last_quarter today None = parse_last_quarter x (Some today)"
  by (simp add: parse_last_quarter_def)

lemma filter_window_ok:
  assumes "valid_date today" "2 \<le> year today \<or> 4 \<le> month today" "typed \<or> \<not> lq"
  shows "\<exists>rows. filter_window typed today lq df = Inr rows \<and> set rows \<subseteq> set df"
proof -
  have m: "1 \<le> month today" "month today \<le> 12" and yr: "1 \<le> year today" "year today \<le> 9999"
    using assms(1) by (simp_all add: valid_date_def)
  note c = start_month_cases[OF m]
  have sm: "start_month today = 1 \<or> start_month today = 4 \<or> start_month today = 7 \<or> start_month today = 10"
    using c by auto
  have y: "1 \<le> last_q_year today" "last_q_year today \<le> 9999" using c yr assms(2) by auto
  show ?thesis
    using assms(3)
    by (cases lq) (auto simp: filter_window_def plq_None[of today today] plq_value[OF y sm refl refl])
qed

lemma sample_today_ok:
  "valid_date sample_today" "2 \<le> year sample_today \<or> 4 \<le> month sample_today"
  by (simp_all add: sample_today_def valid_date_def days_in_month_def)

subsection \<open>Evaluating the formats and the sample data\<close>

lemma wrap64_small: "- (2 ^ 63) \<le> n \<Longrightarrow> n < 2 ^ 63 \<Longrightarrow> wrap64 n = n"
  by (simp add: wrap64_def)

lemma float_shift_small: "\<bar>n\<bar> < 2 ^ 53 \<Longrightarrow> float_shift n = 0"
  by (simp add: float_shift_def upt_rec)

lemma float_of_int64_small: "\<bar>n\<bar> < 2 ^ 53 \<Longrightarrow> float_of_int64 n = n"
  by (simp add: float_of_int64_def float_shift_small)

lemma sum64_small: "\<bar>sum_list xs\<bar> < 2 ^ 53 \<Longrightarrow> sum64 xs = sum_list xs"
  by (simp add: sum64_def wrap64_small)


lemmas show_eval = zero_pad_def show_nat.simps digit_char_def

lemma fmt_2f_samples:
  "fmt_2f 12 = ''12.00''" "fmt_2f 0 = ''0.00''" "fmt_2f 70 = ''70.00''"
  "fmt_2f 9007199254740992 = ''9,007,199,254,740,992.00''"
  by (simp_all add: fmt_2f_def show_eval)

lemma float_of_int64_samples:
  "float_of_int64 12 = 12" "float_of_int64 70 = 70"
  "float_of_int64 9007199254740993 = 9007199254740992"
  by (simp_all add: float_of_int64_def float_shift_def upt_rec)




lemma sample_rows_nonempty: "sample_rows \<noteq> []"
  by (simp add: sample_rows_def)

lemma sample_rows_unfiltered:
  "filter_window (sample_rows \<noteq> []) sample_today False (filter_rvp None sample_rows) = Inr sample_rows"
  by (simp add: filter_window_def filter_rvp_def)

lemma sample_total:
  "sum64 (map (metric_col Redemptions) sample_rows) = 12"
  "sum64 (map (metric_col Purchases) sample_rows) = 70"
  by (simp_all add: sample_rows_def sum64_def wrap64_def)

subsection \<open>The title\<close>

lemma build_title_closed:
  "build_title m rv lq gf =
     str_title (metric_name m) @
     (case rv of None \<Rightarrow> [] | Some v \<Rightarrow> if v \<noteq> [] then '' for RVP '' @ v else []) @
     (if lq then '' (Last Quarter)'' else []) @
     (case gf of None \<Rightarrow> []
      | Some g \<Rightarrow> '' by '' @ str_title (underscores_to_spaces (group_field_name g)))"
  by (simp add: build_title_def Let_def split: option.splits)


subsection \<open>The grouped path\<close>

lemma set_sort_desc: "set (map fst (sort_desc agg)) = set (map fst agg)"
  by (simp add: sort_desc_def)

lemma group_sums_keys: "map fst (group_sums key val rows) = sort (remdups (map key rows))"
  by (simp add: group_sums_def comp_def)

lemma group_sums_key_set: "set (map fst (sort_desc (group_sums key val rows))) = key ` set rows"
  by (simp only: set_sort_desc group_sums_keys) simp

lemma answer_grouped:
  assumes "filter_window (df \<noteq> []) today lq (filter_rvp rv df) = Inr rows"
  shows "answer df today rv lq (Some g) m tr =
     Inr \<lparr>resp_type = ''chart'', resp_title = Some (build_title m rv lq (Some g)), resp_text = None,
          resp_labels = Some (map fst (sort_desc (group_sums (group_field_col g) (metric_col m) rows))),
          resp_datasets = Some [\<lparr>label = metric_name m,
             data = map (\<lambda>p. round2 (snd p)) (sort_desc (group_sums (group_field_col g) (metric_col m) rows))\<rparr>],
          resp_table = None\<rparr>"
  using assms by (simp add: answer_def Let_def)


lemma answer_text:
  assumes "filter_window (df \<noteq> []) today lq (filter_rvp rv df) = Inr rows"
  shows "answer df today rv lq None m False =
     Inr \<lparr>resp_type = ''text'', resp_title = Some (build_title m rv lq None),
          resp_text = Some (str_title (metric_name m) @ '' = '' @
                            fmt_2f (if rows \<noteq> []
                                    then float_of_int64 (sum64 (map (metric_col m) rows)) else 0)),
          resp_labels = None, resp_datasets = None, resp_table = None\<rparr>"
  using assms by (simp add: answer_def Let_def)



text \<open>
  C6. For the question "redemptions for rvp alice by fund type" with an empty context the
  router finds the filter value "Alice", the metric redemptions and the grouping by fund
  type, and returns a chart titled "Redemptions for RVP Alice by Fund Type", on every
  snapshot and clock. In general the title is the title-cased metric name followed, in this
  order and each only when set, by " for RVP " and the filter value, " (Last Quarter)", and
  " by " and the title-cased name of the grouping column with spaces for underscores.
\<close>

theorem scenario_redemptions_rvp_alice:
  "find_rvp (str_lower ''redemptions for rvp alice by fund type'') (Some Map.empty) = Some ''Alice'' \<and>
   find_metric (str_lower ''redemptions for rvp alice by fund type'') = Redemptions \<and>
   find_group_field (str_lower ''redemptions for rvp alice by fund type'') = Some Fund_type \<and>
   route_question df today ''redemptions for rvp alice by fund type'' (Some Map.empty) =
     Inr \<lparr>resp_type = ''chart'', resp_title = Some ''Redemptions for RVP Alice by Fund Type'',
          resp_text = None,
          resp_labels = Some (map fst (sort_desc (group_sums fund_type redemptions
                            (filter (\<lambda>r. str_lower (rvp r) = ''alice'') df)))),
          resp_datasets = Some [\<lparr>label = ''redemptions'',
             data = map (\<lambda>p. round2 (snd p)) (sort_desc (group_sums fund_type redemptions
                            (filter (\<lambda>r. str_lower (rvp r) = ''alice'') df)))\<rparr>],
          resp_table = None\<rparr> \<and>
   build_title m rv lq gf =
     str_title (metric_name m) @
     (case rv of None \<Rightarrow> [] | Some v \<Rightarrow> if v \<noteq> [] then '' for RVP '' @ v else []) @
     (if lq then '' (Last Quarter)'' else []) @
     (case gf of None \<Rightarrow> []
      | Some g \<Rightarrow> '' by '' @ str_title (underscores_to_spaces (group_field_name g)))"
proof -
  let ?q = "''redemptions for rvp alice by fund type''"
  have low: "str_lower ?q = ?q" by code_simp
  have r: "find_rvp ?q (Some Map.empty) = Some ''Alice''" by code_simp
  have m: "find_metric ?q = Redemptions" by code_simp
  have g: "find_group_field ?q = Some Fund_type" by code_simp
  have lq: "wants_last_quarter ?q = False" by code_simp
  have t: "build_title Redemptions (Some ''Alice'') False (Some Fund_type) =
           ''Redemptions for RVP Alice by Fund Type''"
    by code_simp
  have al: "str_lower ''Alice'' = ''alice''" by code_simp
  have cols: "group_field_col Fund_type = fund_type" "metric_col Redemptions = redemptions"
    by (rule ext, simp)+
  have fw: "filter_window (df \<noteq> []) today False (filter_rvp (Some ''Alice'') df) =
            Inr (filter (\<lambda>r. str_lower (rvp r) = ''alice'') df)"
    by (simp add: filter_window_def filter_rvp_def al)
  have "route_question df today ?q (Some Map.empty) =
        answer df today (Some ''Alice'') False (Some Fund_type) Redemptions (wants_trend ?q)"
    by (simp only: route_question_def Let_def low r m g lq)
  then have run: "route_question df today ?q (Some Map.empty) =
     Inr \<lparr>resp_type = ''chart'', resp_title = Some ''Redemptions for RVP Alice by Fund Type'',
          resp_text = None,
          resp_labels = Some (map fst (sort_desc (group_sums fund_type redemptions
                            (filter (\<lambda>r. str_lower (rvp r) = ''alice'') df)))),
          resp_datasets = Some [\<lparr>label = ''redemptions'',
             data = map (\<lambda>p. round2 (snd p)) (sort_desc (group_sums fund_type redemptions
                            (filter (\<lambda>r. str_lower (rvp r) = ''alice'') df)))\<rparr>],
          resp_table = None\<rparr>"
    by (simp only: answer_grouped[OF fw] t cols metric_name.simps)
  show ?thesis
    using r m g run build_title_closed[of m rv lq gf] by (simp only: low)
qed

theorem scenario_redemptions_rvp_alice_witness:
  "route_question sample_rows sample_today ''redemptions for rvp alice by fund type'' (Some Map.empty) =
     Inr \<lparr>resp_type = ''chart'', resp_title = Some ''Redemptions for RVP Alice by Fund Type'',
          resp_text = None, resp_labels = Some [''bond'', ''equity''],
          resp_datasets = Some [\<lparr>label = ''redemptions'', data = [7, 5]\<rparr>],
          resp_table = None\<rparr> \<and>
   build_title Assets (Some ''Bob'') True (Some Mandate_name) =
     ''Assets for RVP Bob (Last Quarter) by Mandate Name''"
proof -
  have a: "map fst (sort_desc (group_sums fund_type redemptions
             (filter (\<lambda>r. str_lower (rvp r) = ''alice'') sample_rows))) = [''bond'', ''equity'']"
    by code_simp
  have b: "map (\<lambda>p. round2 (snd p)) (sort_desc (group_sums fund_type redemptions
             (filter (\<lambda>r. str_lower (rvp r) = ''alice'') sample_rows))) = [7, 5]"
    by code_simp
  have c: "str_title (metric_name Assets) @ '' for RVP '' @ ''Bob'' @ '' (Last Quarter)'' @
           '' by '' @ str_title (underscores_to_spaces (group_field_name Mandate_name)) =
           ''Assets for RVP Bob (Last Quarter) by Mandate Name''"
    by code_simp
  show ?thesis
    using scenario_redemptions_rvp_alice[of sample_rows sample_today Assets "Some ''Bob''" True
        "Some Mandate_name"] a b c
    by simp
qed

subsection \<open>The metric\<close>

text \<open>
  C7. The router answers with the metric \<open>find_metric\<close> picks from the lower-cased question,
  and that metric is fixed by the first match in the order "redemption", "purchase",
  "asset": redemptions when "redemption" occurs; else purchases when "purchase" occurs; else
  assets when "asset" occurs; and purchases when none of the three occurs.
\<close>

theorem metric_first_match:
  "route_question df today q ctx =
     answer df today (find_rvp (str_lower q) ctx) (wants_last_quarter (str_lower q))
       (find_group_field (str_lower q)) (find_metric (str_lower q)) (wants_trend (str_lower q)) \<and>
   (str_in ''redemption'' (str_lower q) \<longrightarrow> find_metric (str_lower q) = Redemptions) \<and>
   (\<not> str_in ''redemption'' (str_lower q) \<and> str_in ''purchase'' (str_lower q) \<longrightarrow>
      find_metric (str_lower q) = Purchases) \<and>
   (\<not> str_in ''redemption'' (str_lower q) \<and> \<not> str_in ''purchase'' (str_lower q) \<and>
    str_in ''asset'' (str_lower q) \<longrightarrow> find_metric (str_lower q) = Assets) \<and>
   (\<not> str_in ''redemption'' (str_lower q) \<and> \<not> str_in ''purchase'' (str_lower q) \<and>
    \<not> str_in ''asset'' (str_lower q) \<longrightarrow> find_metric (str_lower q) = Purchases)"
  by (simp add: route_question_def find_metric_def Let_def)

theorem metric_first_match_witness:
  "str_in ''redemption'' (str_lower ''Assets, Purchases and REDEMPTIONS'') \<and>
   find_metric (str_lower ''Assets, Purchases and REDEMPTIONS'') = Redemptions \<and>
   \<not> str_in ''redemption'' (str_lower ''assets and purchases'') \<and>
   str_in ''purchase'' (str_lower ''assets and purchases'') \<and>
   find_metric (str_lower ''assets and purchases'') = Purchases \<and>
   \<not> str_in ''redemption'' (str_lower ''total assets'') \<and>
   \<not> str_in ''purchase'' (str_lower ''total assets'') \<and>
   str_in ''asset'' (str_lower ''total assets'') \<and>
   find_metric (str_lower ''total assets'') = Assets \<and>
   \<not> str_in ''redemption'' (str_lower ''how are we doing'') \<and>
   \<not> str_in ''purchase'' (str_lower ''how are we doing'') \<and>
   \<not> str_in ''asset'' (str_lower ''how are we doing'') \<and>
   find_metric (str_lower ''how are we doing'') = Purchases"
proof -
  have a: "str_in ''redemption'' (str_lower ''Assets, Purchases and REDEMPTIONS'')"
    by code_simp
  have b: "\<not> str_in ''redemption'' (str_lower ''assets and purchases'')"
    "str_in ''purchase'' (str_lower ''assets and purchases'')"
    by code_simp+
  have c: "\<not> str_in ''redemption'' (str_lower ''total assets'')"
    "\<not> str_in ''purchase'' (str_lower ''total assets'')"
    "str_in ''asset'' (str_lower ''total assets'')"
    by code_simp+
  have d: "\<not> str_in ''redemption'' (str_lower ''how are we doing'')"
    "\<not> str_in ''purchase'' (str_lower ''how are we doing'')"
    "\<not> str_in ''asset'' (str_lower ''how are we doing'')"
    by code_simp+
  show ?thesis
    using a b c d
      metric_first_match[of sample_rows sample_today "''Assets, Purchases and REDEMPTIONS''" None]
      metric_first_match[of sample_rows sample_today "''assets and purchases''" None]
      metric_first_match[of sample_rows sample_today "''total assets''" None]
      metric_first_match[of sample_rows sample_today "''how are we doing''" None]
    by simp
qed

subsection \<open>The entity filter\<close>

lemma match_rvp_at_nonempty: "match_rvp_at s = Some w \<Longrightarrow> w \<noteq> []"
  by (auto simp: match_rvp_at_def Let_def split: if_splits)

lemma re_search_rvp_nonempty: "re_search_rvp s = Some w \<Longrightarrow> w \<noteq> []"
  by (induction s) (auto split: option.splits dest: match_rvp_at_nonempty)

lemma str_title_nonempty: "w \<noteq> [] \<Longrightarrow> str_title w \<noteq> []"
  by (cases w) (simp_all add: str_title_def)

lemma show_nat_nonempty: "show_nat n \<noteq> []"
  by (subst show_nat.simps) simp

lemma py_str_truthy_nonempty: "truthy v \<Longrightarrow> py_str v \<noteq> []"
  by (cases v) (auto simp: show_int_def show_nat_nonempty)

text \<open>
  C8 (amended). A match of the pattern in the lower-cased question (the letters rvp, white
  space of any kind the pattern class holds, then letters) fixes the filter value:
  the captured word, title-cased, whatever the context holds, and the rows kept are those
  whose \<open>rvp\<close> equals it up to case. Without a match, a context whose \<open>rvp\<close> value is truthy
  (a string that is not empty, a number other than zero, true) gives that value as a string.
  Without a match, and with no context, no \<open>rvp\<close> key, or a falsy \<open>rvp\<close> value, there is no
  filter value and every row is kept.
\<close>

theorem entity_filter_resolution:
  "(re_search_rvp (str_lower q) = Some w \<longrightarrow>
      find_rvp (str_lower q) ctx = Some (str_title w) \<and>
      filter_rvp (find_rvp (str_lower q) ctx) df =
        filter (\<lambda>r. str_lower (rvp r) = str_lower (str_title w)) df) \<and>
   (re_search_rvp (str_lower q) = None \<and> ctx = Some c \<and> c ''rvp'' = Some v \<and> truthy v \<longrightarrow>
      find_rvp (str_lower q) ctx = Some (py_str v) \<and>
      filter_rvp (find_rvp (str_lower q) ctx) df =
        filter (\<lambda>r. str_lower (rvp r) = str_lower (py_str v)) df) \<and>
   (re_search_rvp (str_lower q) = None \<and> ctx = Some c \<and> c ''rvp'' = Some v \<and> \<not> truthy v \<longrightarrow>
      find_rvp (str_lower q) ctx = None \<and> filter_rvp (find_rvp (str_lower q) ctx) df = df) \<and>
   (re_search_rvp (str_lower q) = None \<and> ctx = Some c \<and> c ''rvp'' = None \<longrightarrow>
      find_rvp (str_lower q) ctx = None \<and> filter_rvp (find_rvp (str_lower q) ctx) df = df) \<and>
   (re_search_rvp (str_lower q) = None \<and> ctx = None \<longrightarrow>
      find_rvp (str_lower q) ctx = None \<and> filter_rvp (find_rvp (str_lower q) ctx) df = df)"
proof -
  have a: "re_search_rvp (str_lower q) = Some w \<longrightarrow>
      find_rvp (str_lower q) ctx = Some (str_title w) \<and>
      filter_rvp (find_rvp (str_lower q) ctx) df =
        filter (\<lambda>r. str_lower (rvp r) = str_lower (str_title w)) df"
  proof
    assume h: "re_search_rvp (str_lower q) = Some w"
    have "str_title w \<noteq> []"
      by (rule str_title_nonempty[OF re_search_rvp_nonempty[OF h]])
    with h show "find_rvp (str_lower q) ctx = Some (str_title w) \<and>
      filter_rvp (find_rvp (str_lower q) ctx) df =
        filter (\<lambda>r. str_lower (rvp r) = str_lower (str_title w)) df"
      by (simp add: find_rvp_def filter_rvp_def)
  qed
  have b: "re_search_rvp (str_lower q) = None \<and> ctx = Some c \<and> c ''rvp'' = Some v \<and> truthy v \<longrightarrow>
      find_rvp (str_lower q) ctx = Some (py_str v) \<and>
      filter_rvp (find_rvp (str_lower q) ctx) df =
        filter (\<lambda>r. str_lower (rvp r) = str_lower (py_str v)) df"
  proof
    assume h: "re_search_rvp (str_lower q) = None \<and> ctx = Some c \<and> c ''rvp'' = Some v \<and> truthy v"
    then have "py_str v \<noteq> []"
      by (simp add: py_str_truthy_nonempty)
    with h show "find_rvp (str_lower q) ctx = Some (py_str v) \<and>
      filter_rvp (find_rvp (str_lower q) ctx) df =
        filter (\<lambda>r. str_lower (rvp r) = str_lower (py_str v)) df"
      by (simp add: find_rvp_def filter_rvp_def)
  qed
  have c: "re_search_rvp (str_lower q) = None \<and> ctx = Some c \<and> c ''rvp'' = Some v \<and> \<not> truthy v \<longrightarrow>
      find_rvp (str_lower q) ctx = None \<and> filter_rvp (find_rvp (str_lower q) ctx) df = df"
    by (simp add: find_rvp_def filter_rvp_def)
  have d: "re_search_rvp (str_lower q) = None \<and> ctx = Some c \<and> c ''rvp'' = None \<longrightarrow>
      find_rvp (str_lower q) ctx = None \<and> filter_rvp (find_rvp (str_lower q) ctx) df = df"
    by (simp add: find_rvp_def filter_rvp_def)
  have e: "re_search_rvp (str_lower q) = None \<and> ctx = None \<longrightarrow>
      find_rvp (str_lower q) ctx = None \<and> filter_rvp (find_rvp (str_lower q) ctx) df = df"
    by (simp add: find_rvp_def filter_rvp_def)
  show ?thesis
    by (rule conjI[OF a conjI[OF b conjI[OF c conjI[OF d e]]]])
qed

theorem entity_filter_resolution_witness:
  "re_search_rvp (str_lower ''Assets for RVP  alice please'') = Some ''alice'' \<and>
   find_rvp (str_lower ''Assets for RVP  alice please'') (Some [''rvp'' \<mapsto> PyStr ''Bob'']) =
     Some ''Alice'' \<and>
   re_search_rvp (str_lower ''total assets'') = None \<and>
   truthy (PyStr ''Bob'') \<and>
   find_rvp (str_lower ''total assets'') (Some [''rvp'' \<mapsto> PyStr ''Bob'']) = Some ''Bob'' \<and>
   \<not> truthy (PyStr []) \<and>
   find_rvp (str_lower ''total assets'') (Some [''rvp'' \<mapsto> PyStr []]) = None \<and>
   find_rvp (str_lower ''total assets'') (Some Map.empty) = None \<and>
   find_rvp (str_lower ''total assets'') None = None \<and>
   find_rvp (str_lower (''assets for RVP'' @ [CHR 0xA0] @ ''alice''))
     (Some [''rvp'' \<mapsto> PyStr ''Bob'']) = Some ''Alice''"
proof -
  have m: "re_search_rvp (str_lower ''Assets for RVP  alice please'') = Some ''alice''"
    by code_simp
  have m2: "re_search_rvp (str_lower (''assets for RVP'' @ [CHR 0xA0] @ ''alice'')) = Some ''alice''"
    by code_simp
  have t: "str_title ''alice'' = ''Alice''"
    by code_simp
  have n: "re_search_rvp (str_lower ''total assets'') = None"
    by code_simp
  have k: "[''rvp'' \<mapsto> PyStr ''Bob''] ''rvp'' = Some (PyStr ''Bob'')"
    "[''rvp'' \<mapsto> PyStr []] ''rvp'' = Some (PyStr [])"
    "(Map.empty :: string \<rightharpoonup> pyval) ''rvp'' = None"
    by simp_all
  have tr: "truthy (PyStr ''Bob'')" "\<not> truthy (PyStr [])"
    by simp_all
  have 1: "find_rvp (str_lower ''Assets for RVP  alice please'') (Some [''rvp'' \<mapsto> PyStr ''Bob'']) =
     Some ''Alice''"
    using entity_filter_resolution[of "''Assets for RVP  alice please''" "''alice''"
        "Some [''rvp'' \<mapsto> PyStr ''Bob'']" sample_rows Map.empty PyNone] m t
    by simp
  have 2: "find_rvp (str_lower ''total assets'') (Some [''rvp'' \<mapsto> PyStr ''Bob'']) = Some ''Bob''"
    using entity_filter_resolution[of "''total assets''" "[]" "Some [''rvp'' \<mapsto> PyStr ''Bob'']"
        sample_rows "[''rvp'' \<mapsto> PyStr ''Bob'']" "PyStr ''Bob''"] n k tr
    by simp
  have 3: "find_rvp (str_lower ''total assets'') (Some [''rvp'' \<mapsto> PyStr []]) = None"
    using entity_filter_resolution[of "''total assets''" "[]" "Some [''rvp'' \<mapsto> PyStr []]"
        sample_rows "[''rvp'' \<mapsto> PyStr []]" "PyStr []"] n k tr
    by simp
  have 4: "find_rvp (str_lower ''total assets'') (Some Map.empty) = None"
    using entity_filter_resolution[of "''total assets''" "[]" "Some Map.empty" sample_rows
        Map.empty PyNone] n k
    by simp
  have 5: "find_rvp (str_lower ''total assets'') None = None"
    using entity_filter_resolution[of "''total assets''" "[]" None sample_rows Map.empty PyNone] n
    by simp
  have 6: "find_rvp (str_lower (''assets for RVP'' @ [CHR 0xA0] @ ''alice''))
     (Some [''rvp'' \<mapsto> PyStr ''Bob'']) = Some ''Alice''"
    using entity_filter_resolution[of "''assets for RVP'' @ [CHR 0xA0] @ ''alice''" "''alice''"
        "Some [''rvp'' \<mapsto> PyStr ''Bob'']" sample_rows Map.empty PyNone] m2 t
    by simp
  from m n tr 1 2 3 4 5 6 show ?thesis
    by (intro conjI)
qed

text \<open>
  C8 as stated fails where the context carries a falsy \<open>rvp\<close> value: the question
  "total redemptions" matches no pattern and the context holds the number 0 (or the empty
  string) under \<open>rvp\<close>, yet the value is not used as the filter. No filter is applied, and
  the answer is the total over all rows.
\<close>

theorem entity_filter_falsy_context_counterexample:
  "re_search_rvp (str_lower ''total redemptions'') = None \<and>
   find_rvp (str_lower ''total redemptions'') (Some [''rvp'' \<mapsto> PyInt 0]) \<noteq> Some (py_str (PyInt 0)) \<and>
   find_rvp (str_lower ''total redemptions'') (Some [''rvp'' \<mapsto> PyInt 0]) = None \<and>
   find_rvp (str_lower ''total redemptions'') (Some [''rvp'' \<mapsto> PyStr []]) = None \<and>
   route_question sample_rows sample_today ''total redemptions'' (Some [''rvp'' \<mapsto> PyInt 0]) =
     Inr \<lparr>resp_type = ''text'', resp_title = Some ''Redemptions'',
          resp_text = Some ''Redemptions = 12.00'', resp_labels = None, resp_datasets = None,
          resp_table = None\<rparr>"
proof -
  have n: "re_search_rvp (str_lower ''total redemptions'') = None"
    by code_simp
  have f: "find_rvp (str_lower ''total redemptions'') (Some [''rvp'' \<mapsto> PyInt 0]) = None"
    "find_rvp (str_lower ''total redemptions'') (Some [''rvp'' \<mapsto> PyStr []]) = None"
    by (simp_all add: find_rvp_def n)
  have i: "find_rvp (str_lower ''total redemptions'') None = None"
    "wants_last_quarter (str_lower ''total redemptions'') = False"
    "find_group_field (str_lower ''total redemptions'') = None"
    "find_metric (str_lower ''total redemptions'') = Redemptions"
    "wants_trend (str_lower ''total redemptions'') = False"
    "build_title Redemptions None False None = ''Redemptions''"
    "str_title ''redemptions'' = ''Redemptions''"
    by code_simp+
  have r: "route_question sample_rows sample_today ''total redemptions'' None =
     Inr \<lparr>resp_type = ''text'', resp_title = Some ''Redemptions'',
          resp_text = Some ''Redemptions = 12.00'', resp_labels = None, resp_datasets = None,
          resp_table = None\<rparr>"
    by (simp add: route_question_def i answer_text[OF sample_rows_unfiltered] sample_total
          sample_rows_nonempty float_of_int64_samples fmt_2f_samples)
  have "find_rvp (str_lower ''total redemptions'') None = None"
    by (simp add: find_rvp_def n)
  then have "route_question sample_rows sample_today ''total redemptions'' (Some [''rvp'' \<mapsto> PyInt 0]) =
        route_question sample_rows sample_today ''total redemptions'' None"
    by (simp add: route_question_def Let_def f)
  with n f r show ?thesis by simp
qed

subsection \<open>The order of the grouped chart\<close>

lemma group_sums_snd:
  "p \<in> set (group_sums key val rows) \<Longrightarrow> snd p = group_total key val rows (fst p)"
  by (auto simp: group_sums_def group_total_def)

lemma sort_desc_snd:
  "map snd (sort_desc (group_sums key val rows)) =
   map (group_total key val rows) (map fst (sort_desc (group_sums key val rows)))"
  by (simp add: sort_desc_def group_sums_snd)

lemma sort_desc_round:
  "map (\<lambda>p. round2 (snd p)) (sort_desc (group_sums key val rows)) =
   map (\<lambda>k. round2 (group_total key val rows k)) (map fst (sort_desc (group_sums key val rows)))"
  by (simp add: sort_desc_def group_sums_snd)

lemma sort_desc_descending: "sorted_wrt (\<lambda>a b. b \<le> a) (map snd (sort_desc agg))"
proof -
  have "sorted (map (\<lambda>p. - snd p) (sort_desc agg))"
    unfolding sort_desc_def by (rule sorted_sort_key)
  then show ?thesis
    by (simp add: sorted_wrt_map)
qed

lemma sort_desc_distinct: "distinct (map fst (sort_desc (group_sums key val rows)))"
proof -
  have "mset (map fst (sort_desc (group_sums key val rows))) = mset (map fst (group_sums key val rows))"
    by (simp add: sort_desc_def)
  moreover have "distinct (map fst (group_sums key val rows))"
    by (simp add: group_sums_keys)
  ultimately show ?thesis
    using mset_eq_imp_distinct_iff by blast
qed

lemma wholesaler_chosen:
  assumes "str_in ''by wholesaler'' ql" "\<not> str_in ''by fund type'' ql"
  shows "find_group_field ql = Some Wholesaler"
  using assms by (simp add: find_group_field_def)

text \<open>
  C4 (amended). For every question whose lower-cased text contains "by wholesaler" and does
  not contain "by fund type", on a clock after March of year 1 and, when the question also
  names the last quarter, on a snapshot with rows, the response is a chart
  grouped by wholesaler: its labels are the distinct wholesalers of the selected rows, in
  the order of descending sum of the selected metric, and its series holds those sums,
  rounded to two decimals, label by label.
\<close>

theorem by_wholesaler_chart:
  assumes "str_in ''by wholesaler'' (str_lower q)" and "\<not> str_in ''by fund type'' (str_lower q)"
    and "valid_date today" and "2 \<le> year today \<or> 4 \<le> month today"
    and "df \<noteq> [] \<or> \<not> wants_last_quarter (str_lower q)"
  shows "\<exists>rows labels.
           filter_window (df \<noteq> []) today (wants_last_quarter (str_lower q))
             (filter_rvp (find_rvp (str_lower q) ctx) df) = Inr rows \<and>
           route_question df today q ctx =
             Inr \<lparr>resp_type = ''chart'',
                  resp_title = Some (build_title (find_metric (str_lower q)) (find_rvp (str_lower q) ctx)
                                       (wants_last_quarter (str_lower q)) (Some Wholesaler)),
                  resp_text = None, resp_labels = Some labels,
                  resp_datasets = Some [\<lparr>label = metric_name (find_metric (str_lower q)),
                     data = map (\<lambda>k. round2 (group_total wholesaler
                                        (metric_col (find_metric (str_lower q))) rows k)) labels\<rparr>],
                  resp_table = None\<rparr> \<and>
           distinct labels \<and> set labels = wholesaler ` set rows \<and>
           sorted_wrt (\<lambda>a b. b \<le> a)
             (map (group_total wholesaler (metric_col (find_metric (str_lower q))) rows) labels)"
proof -
  let ?ql = "str_lower q"
  let ?m = "find_metric ?ql"
  obtain rows where rows:
    "filter_window (df \<noteq> []) today (wants_last_quarter ?ql) (filter_rvp (find_rvp ?ql ctx) df) = Inr rows"
    using filter_window_ok[OF assms(3,4,5)] by blast
  let ?agg = "sort_desc (group_sums wholesaler (metric_col ?m) rows)"
  have col: "group_field_col Wholesaler = wholesaler"
    by (rule ext) simp
  have rq: "route_question df today q ctx =
      answer df today (find_rvp ?ql ctx) (wants_last_quarter ?ql) (Some Wholesaler) ?m (wants_trend ?ql)"
    by (simp add: route_question_def Let_def wholesaler_chosen[OF assms(1,2)])
  have run: "route_question df today q ctx =
             Inr \<lparr>resp_type = ''chart'',
                  resp_title = Some (build_title ?m (find_rvp ?ql ctx) (wants_last_quarter ?ql) (Some Wholesaler)),
                  resp_text = None, resp_labels = Some (map fst ?agg),
                  resp_datasets = Some [\<lparr>label = metric_name ?m,
                     data = map (\<lambda>k. round2 (group_total wholesaler (metric_col ?m) rows k)) (map fst ?agg)\<rparr>],
                  resp_table = None\<rparr>"
    unfolding rq answer_grouped[OF rows] col sort_desc_round ..
  have d: "distinct (map fst ?agg)"
    by (rule sort_desc_distinct)
  have s: "set (map fst ?agg) = wholesaler ` set rows"
    by (rule group_sums_key_set)
  have o: "sorted_wrt (\<lambda>a b. b \<le> a) (map (group_total wholesaler (metric_col ?m) rows) (map fst ?agg))"
    using sort_desc_descending[of "group_sums wholesaler (metric_col ?m) rows"]
    by (simp only: sort_desc_snd)
  from rows run d s o show ?thesis by blast
qed

theorem by_wholesaler_chart_witness:
  "str_in ''by wholesaler'' (str_lower ''Redemptions by Wholesaler'') \<and>
   \<not> str_in ''by fund type'' (str_lower ''Redemptions by Wholesaler'') \<and>
   valid_date sample_today \<and>
   (\<exists>rows labels.
      route_question sample_rows sample_today ''Redemptions by Wholesaler'' None =
        Inr \<lparr>resp_type = ''chart'', resp_title = Some ''Redemptions by Wholesaler'',
             resp_text = None, resp_labels = Some labels,
             resp_datasets = Some [\<lparr>label = ''redemptions'',
                data = map (\<lambda>k. round2 (group_total wholesaler redemptions rows k)) labels\<rparr>],
             resp_table = None\<rparr> \<and>
      sorted_wrt (\<lambda>a b. b \<le> a) (map (group_total wholesaler redemptions rows) labels)) \<and>
   route_question sample_rows sample_today ''Redemptions by Wholesaler'' None =
     Inr \<lparr>resp_type = ''chart'', resp_title = Some ''Redemptions by Wholesaler'',
          resp_text = None, resp_labels = Some [''w2'', ''w1''],
          resp_datasets = Some [\<lparr>label = ''redemptions'', data = [7, 5]\<rparr>],
          resp_table = None\<rparr>"
proof -
  let ?q = "''Redemptions by Wholesaler''"
  have a: "str_in ''by wholesaler'' (str_lower ?q)"
    by code_simp
  have b: "\<not> str_in ''by fund type'' (str_lower ?q)"
    by code_simp
  have m: "find_metric (str_lower ?q) = Redemptions"
    by code_simp
  have t: "build_title Redemptions (find_rvp (str_lower ?q) None) (wants_last_quarter (str_lower ?q))
             (Some Wholesaler) = ''Redemptions by Wholesaler''"
    by code_simp
  have col: "metric_col Redemptions = redemptions"
    by (rule ext) simp
  have ne: "sample_rows \<noteq> [] \<or> \<not> wants_last_quarter (str_lower ?q)"
    by (simp add: sample_rows_nonempty)
  have run: "route_question sample_rows sample_today ?q None =
     Inr \<lparr>resp_type = ''chart'', resp_title = Some ''Redemptions by Wholesaler'',
          resp_text = None, resp_labels = Some [''w2'', ''w1''],
          resp_datasets = Some [\<lparr>label = ''redemptions'', data = [7, 5]\<rparr>],
          resp_table = None\<rparr>"
    by code_simp
  have gen: "\<exists>rows labels.
      route_question sample_rows sample_today ?q None =
        Inr \<lparr>resp_type = ''chart'', resp_title = Some ''Redemptions by Wholesaler'',
             resp_text = None, resp_labels = Some labels,
             resp_datasets = Some [\<lparr>label = ''redemptions'',
                data = map (\<lambda>k. round2 (group_total wholesaler redemptions rows k)) labels\<rparr>],
             resp_table = None\<rparr> \<and>
      sorted_wrt (\<lambda>a b. b \<le> a) (map (group_total wholesaler redemptions rows) labels)"
    using by_wholesaler_chart[where ctx = None and df = sample_rows, OF a b sample_today_ok ne]
    unfolding m t col metric_name.simps by blast
  from a b sample_today_ok(1) gen run show ?thesis
    by (intro conjI)
qed

text \<open>
  C4 as stated fails for a question that also contains "by fund type", which is tested
  first: "purchases by fund type by wholesaler" is grouped by fund type, and its labels are
  fund types, none of them a wholesaler of the data.
\<close>

theorem by_wholesaler_after_fund_type_counterexample:
  "str_in ''by wholesaler'' (str_lower ''purchases by fund type by wholesaler'') \<and>
   find_group_field (str_lower ''purchases by fund type by wholesaler'') = Some Fund_type \<and>
   route_question sample_rows sample_today ''purchases by fund type by wholesaler'' None =
     Inr \<lparr>resp_type = ''chart'', resp_title = Some ''Purchases by Fund Type'', resp_text = None,
          resp_labels = Some [''equity'', ''bond''],
          resp_datasets = Some [\<lparr>label = ''purchases'', data = [40, 30]\<rparr>], resp_table = None\<rparr> \<and>
   set [''equity'', ''bond''] \<inter> wholesaler ` set sample_rows = {}"
proof -
  have a: "str_in ''by wholesaler'' (str_lower ''purchases by fund type by wholesaler'')"
    by code_simp
  have b: "find_group_field (str_lower ''purchases by fund type by wholesaler'') = Some Fund_type"
    by code_simp
  have c: "route_question sample_rows sample_today ''purchases by fund type by wholesaler'' None =
     Inr \<lparr>resp_type = ''chart'', resp_title = Some ''Purchases by Fund Type'', resp_text = None,
          resp_labels = Some [''equity'', ''bond''],
          resp_datasets = Some [\<lparr>label = ''purchases'', data = [40, 30]\<rparr>], resp_table = None\<rparr>"
    by code_simp
  have d: "set [''equity'', ''bond''] \<inter> wholesaler ` set sample_rows = {}"
    by (simp add: sample_rows_def)
  from a b c d show ?thesis by (intro conjI)
qed

subsection \<open>The monthly chart\<close>








subsection \<open>The grouped sums add up to the total\<close>

lemma sum_exact_groups:
  assumes "finite K"
  shows "key ` set rows \<subseteq> K \<Longrightarrow>
         (\<Sum>k\<in>K. sum_list (map val (filter (\<lambda>r. key r = k) rows))) = sum_list (map val rows)"
proof (induction rows)
  case Nil
  then show ?case by simp
next
  case (Cons r rs)
  then have in_K: "key r \<in> K" and sub: "key ` set rs \<subseteq> K"
    by simp_all
  have step: "sum_list (map val (filter (\<lambda>x. key x = k) (r # rs))) =
              (if key r = k then val r else 0) + sum_list (map val (filter (\<lambda>x. key x = k) rs))" for k
    by simp
  have "(\<Sum>k\<in>K. sum_list (map val (filter (\<lambda>x. key x = k) (r # rs)))) =
        (\<Sum>k\<in>K. if key r = k then val r else 0) +
        (\<Sum>k\<in>K. sum_list (map val (filter (\<lambda>x. key x = k) rs)))"
    by (simp only: step sum.distrib)
  also have "(\<Sum>k\<in>K. if key r = k then val r else 0) = val r"
    using assms in_K by (simp add: sum.delta)
  also have "(\<Sum>k\<in>K. sum_list (map val (filter (\<lambda>x. key x = k) rs))) = sum_list (map val rs)"
    by (rule Cons.IH[OF sub])
  finally show ?case by simp
qed

lemma abs_sum_filter_le:
  "\<bar>sum_list (map val (filter P xs))\<bar> \<le> sum_list (map (\<lambda>r. \<bar>val r\<bar>) xs)"
  for val :: "'a \<Rightarrow> int"
  by (induction xs) auto

lemma abs_sum_le: "\<bar>sum_list (map val xs)\<bar> \<le> sum_list (map (\<lambda>r. \<bar>val r\<bar>) xs)"
  for val :: "'a \<Rightarrow> int"
  using abs_sum_filter_le[of val "\<lambda>_. True" xs] by simp

lemma group_total_exact:
  assumes "sum_list (map (\<lambda>r. \<bar>val r\<bar>) rows) < 2 ^ 53"
  shows "group_total key val rows k = sum_list (map val (filter (\<lambda>r. key r = k) rows))"
proof -
  have "\<bar>sum_list (map val (filter (\<lambda>r. key r = k) rows))\<bar> < 2 ^ 53"
    using abs_sum_filter_le[of val "\<lambda>r. key r = k" rows] assms by linarith
  then show ?thesis
    unfolding group_total_def by (rule sum64_small)
qed

lemma total_exact:
  assumes "sum_list (map (\<lambda>r. \<bar>val r\<bar>) rows) < 2 ^ 53"
  shows "float_of_int64 (sum64 (map val rows)) = sum_list (map val rows)"
proof -
  have b: "\<bar>sum_list (map val rows)\<bar> < 2 ^ 53"
    using abs_sum_le[of val rows] assms by linarith
  then show ?thesis
    by (simp add: sum64_small float_of_int64_small)
qed

lemma labels_sum:
  assumes "sum_list (map (\<lambda>r. \<bar>val r\<bar>) rows) < 2 ^ 53"
  shows "sum_list (map (group_total key val rows) (map fst (sort_desc (group_sums key val rows)))) =
         sum_list (map val rows)"
proof -
  let ?L = "map fst (sort_desc (group_sums key val rows))"
  let ?ex = "\<lambda>k. sum_list (map val (filter (\<lambda>r. key r = k) rows))"
  have "map (group_total key val rows) ?L = map ?ex ?L"
    by (simp add: group_total_exact[OF assms])
  then have "sum_list (map (group_total key val rows) ?L) = sum_list (map ?ex ?L)"
    by (simp only:)
  also have "\<dots> = (\<Sum>k\<in>set ?L. ?ex k)"
    by (rule sum_list_distinct_conv_sum_set[OF sort_desc_distinct])
  also have "set ?L = key ` set rows"
    by (rule group_sums_key_set)
  also have "(\<Sum>k\<in>key ` set rows. ?ex k) = sum_list (map val rows)"
    by (rule sum_exact_groups) simp_all
  finally show ?thesis .
qed

text \<open>
  C3 (amended). For every snapshot of whole-number metric values, metric, entity filter,
  time window and grouping, on a clock after March of year 1 and, when a time window is set,
  on a snapshot with rows: the series of the chart holds the 64-bit sums of the groups; and
  when the absolute values of the metric over the selected rows add up to less than
  \<open>2 ^ 53\<close>, the text Result for the same metric, filter and window without grouping and
  trend reports exactly the sum of the chart's series.
\<close>

theorem chart_series_sums_to_text_total:
  assumes "valid_date today" and "2 \<le> year today \<or> 4 \<le> month today" and "df \<noteq> [] \<or> \<not> lq"
  shows "\<exists>rows labels series.
           filter_window (df \<noteq> []) today lq (filter_rvp rv df) = Inr rows \<and>
           answer df today rv lq (Some g) m tr =
             Inr \<lparr>resp_type = ''chart'', resp_title = Some (build_title m rv lq (Some g)),
                  resp_text = None, resp_labels = Some labels,
                  resp_datasets = Some [\<lparr>label = metric_name m, data = series\<rparr>],
                  resp_table = None\<rparr> \<and>
           series = map (\<lambda>k. round2 (group_total (group_field_col g) (metric_col m) rows k)) labels \<and>
           (sum_list (map (\<lambda>r. \<bar>metric_col m r\<bar>) rows) < 2 ^ 53 \<longrightarrow>
              answer df today rv lq None m False =
                Inr \<lparr>resp_type = ''text'', resp_title = Some (build_title m rv lq None),
                     resp_text = Some (str_title (metric_name m) @ '' = '' @ fmt_2f (sum_list series)),
                     resp_labels = None, resp_datasets = None, resp_table = None\<rparr>)"
proof -
  obtain rows where rows: "filter_window (df \<noteq> []) today lq (filter_rvp rv df) = Inr rows"
    using filter_window_ok[OF assms] by blast
  let ?gt = "group_total (group_field_col g) (metric_col m) rows"
  let ?labels = "map fst (sort_desc (group_sums (group_field_col g) (metric_col m) rows))"
  let ?series = "map (\<lambda>k. round2 (?gt k)) ?labels"
  have chart: "answer df today rv lq (Some g) m tr =
             Inr \<lparr>resp_type = ''chart'', resp_title = Some (build_title m rv lq (Some g)),
                  resp_text = None, resp_labels = Some ?labels,
                  resp_datasets = Some [\<lparr>label = metric_name m, data = ?series\<rparr>],
                  resp_table = None\<rparr>"
    unfolding answer_grouped[OF rows] sort_desc_round ..
  have tx: "answer df today rv lq None m False =
                Inr \<lparr>resp_type = ''text'', resp_title = Some (build_title m rv lq None),
                     resp_text = Some (str_title (metric_name m) @ '' = '' @ fmt_2f (sum_list ?series)),
                     resp_labels = None, resp_datasets = None, resp_table = None\<rparr>"
    if small: "sum_list (map (\<lambda>r. \<bar>metric_col m r\<bar>) rows) < 2 ^ 53"
  proof -
    have eq: "?series = map ?gt ?labels"
      by (simp add: round2_def)
    have s: "sum_list ?series = sum_list (map (metric_col m) rows)"
      unfolding eq by (rule labels_sum[OF small])
    have z: "(if rows \<noteq> [] then float_of_int64 (sum64 (map (metric_col m) rows)) else 0) =
             sum_list (map (metric_col m) rows)"
      by (simp add: total_exact[OF small])
    show ?thesis
      unfolding answer_text[OF rows] s z ..
  qed
  from rows chart tx show ?thesis
    by blast
qed

theorem chart_series_sums_to_text_total_witness:
  "valid_date sample_today \<and>
   sum_list (map (\<lambda>r. \<bar>metric_col Redemptions r\<bar>) sample_rows) < 2 ^ 53 \<and>
   (\<exists>labels series.
      answer sample_rows sample_today None False (Some Wholesaler) Redemptions False =
        Inr \<lparr>resp_type = ''chart'',
             resp_title = Some (build_title Redemptions None False (Some Wholesaler)),
             resp_text = None, resp_labels = Some labels,
             resp_datasets = Some [\<lparr>label = metric_name Redemptions, data = series\<rparr>],
             resp_table = None\<rparr> \<and>
      answer sample_rows sample_today None False None Redemptions False =
        Inr \<lparr>resp_type = ''text'', resp_title = Some (build_title Redemptions None False None),
             resp_text = Some (str_title (metric_name Redemptions) @ '' = '' @ fmt_2f (sum_list series)),
             resp_labels = None, resp_datasets = None, resp_table = None\<rparr>) \<and>
   answer sample_rows sample_today None False (Some Wholesaler) Redemptions False =
     Inr \<lparr>resp_type = ''chart'', resp_title = Some ''Redemptions by Wholesaler'', resp_text = None,
          resp_labels = Some [''w2'', ''w1''],
          resp_datasets = Some [\<lparr>label = ''redemptions'', data = [7, 5]\<rparr>], resp_table = None\<rparr> \<and>
   answer sample_rows sample_today None False None Redemptions False =
     Inr \<lparr>resp_type = ''text'', resp_title = Some ''Redemptions'',
          resp_text = Some ''Redemptions = 12.00'', resp_labels = None, resp_datasets = None,
          resp_table = None\<rparr>"
proof -
  have ne: "sample_rows \<noteq> [] \<or> \<not> False"
    by simp
  obtain rows labels series where
    rows: "filter_window (sample_rows \<noteq> []) sample_today False (filter_rvp None sample_rows) = Inr rows" and
    chart: "answer sample_rows sample_today None False (Some Wholesaler) Redemptions False =
        Inr \<lparr>resp_type = ''chart'',
             resp_title = Some (build_title Redemptions None False (Some Wholesaler)),
             resp_text = None, resp_labels = Some labels,
             resp_datasets = Some [\<lparr>label = metric_name Redemptions, data = series\<rparr>],
             resp_table = None\<rparr>" and
    tx: "sum_list (map (\<lambda>r. \<bar>metric_col Redemptions r\<bar>) rows) < 2 ^ 53 \<longrightarrow>
      answer sample_rows sample_today None False None Redemptions False =
        Inr \<lparr>resp_type = ''text'', resp_title = Some (build_title Redemptions None False None),
             resp_text = Some (str_title (metric_name Redemptions) @ '' = '' @ fmt_2f (sum_list series)),
             resp_labels = None, resp_datasets = None, resp_table = None\<rparr>"
    using chart_series_sums_to_text_total[OF sample_today_ok ne, of None Wholesaler Redemptions False]
    by blast
  have same: "rows = sample_rows"
    using rows by (simp add: sample_rows_unfiltered)
  have small: "sum_list (map (\<lambda>r. \<bar>metric_col Redemptions r\<bar>) sample_rows) < 2 ^ 53"
    by (simp add: sample_rows_def)
  have tx': "answer sample_rows sample_today None False None Redemptions False =
        Inr \<lparr>resp_type = ''text'', resp_title = Some (build_title Redemptions None False None),
             resp_text = Some (str_title (metric_name Redemptions) @ '' = '' @ fmt_2f (sum_list series)),
             resp_labels = None, resp_datasets = None, resp_table = None\<rparr>"
    using tx small unfolding same by blast
  have c: "answer sample_rows sample_today None False (Some Wholesaler) Redemptions False =
     Inr \<lparr>resp_type = ''chart'', resp_title = Some ''Redemptions by Wholesaler'', resp_text = None,
          resp_labels = Some [''w2'', ''w1''],
          resp_datasets = Some [\<lparr>label = ''redemptions'', data = [7, 5]\<rparr>], resp_table = None\<rparr>"
    by code_simp
  have i: "build_title Redemptions None False None = ''Redemptions''"
    "str_title ''redemptions'' = ''Redemptions''"
    by code_simp+
  have t: "answer sample_rows sample_today None False None Redemptions False =
     Inr \<lparr>resp_type = ''text'', resp_title = Some ''Redemptions'',
          resp_text = Some ''Redemptions = 12.00'', resp_labels = None, resp_datasets = None,
          resp_table = None\<rparr>"
    by (simp add: answer_text[OF sample_rows_unfiltered] i sample_total sample_rows_nonempty
          float_of_int64_samples fmt_2f_samples)
  have "\<exists>labels series.
      answer sample_rows sample_today None False (Some Wholesaler) Redemptions False =
        Inr \<lparr>resp_type = ''chart'',
             resp_title = Some (build_title Redemptions None False (Some Wholesaler)),
             resp_text = None, resp_labels = Some labels,
             resp_datasets = Some [\<lparr>label = metric_name Redemptions, data = series\<rparr>],
             resp_table = None\<rparr> \<and>
      answer sample_rows sample_today None False None Redemptions False =
        Inr \<lparr>resp_type = ''text'', resp_title = Some (build_title Redemptions None False None),
             resp_text = Some (str_title (metric_name Redemptions) @ '' = '' @ fmt_2f (sum_list series)),
             resp_labels = None, resp_datasets = None, resp_table = None\<rparr>"
    using chart tx' by blast
  with sample_today_ok(1) small c t show ?thesis
    by (intro conjI)
qed

text \<open>
  C3 as stated fails on a snapshot whose metric needs more than 53 bits: for one row with
  purchases 9007199254740993 the chart's series is that number, while the text Result,
  which converts the sum to a floating-point number, reports 9,007,199,254,740,992.00.
\<close>

theorem chart_series_precision_counterexample:
  "answer sample_big_rows sample_today None False (Some Wholesaler) Purchases False =
     Inr \<lparr>resp_type = ''chart'', resp_title = Some ''Purchases by Wholesaler'', resp_text = None,
          resp_labels = Some [''w1''],
          resp_datasets = Some [\<lparr>label = ''purchases'', data = [9007199254740993]\<rparr>],
          resp_table = None\<rparr> \<and>
   answer sample_big_rows sample_today None False None Purchases False =
     Inr \<lparr>resp_type = ''text'', resp_title = Some ''Purchases'',
          resp_text = Some ''Purchases = 9,007,199,254,740,992.00'', resp_labels = None,
          resp_datasets = None, resp_table = None\<rparr> \<and>
   sum_list [9007199254740993] \<noteq> (9007199254740992 :: int)"
proof -
  have fw: "filter_window (sample_big_rows \<noteq> []) sample_today False (filter_rvp None sample_big_rows) =
            Inr sample_big_rows"
    by (simp add: filter_window_def filter_rvp_def)
  have i: "build_title Purchases None False None = ''Purchases''"
    "build_title Purchases None False (Some Wholesaler) = ''Purchases by Wholesaler''"
    "str_title ''purchases'' = ''Purchases''"
    by code_simp+
  have g: "sort_desc (group_sums (group_field_col Wholesaler) (metric_col Purchases) sample_big_rows) =
           [(''w1'', 9007199254740993)]"
    by (simp add: sort_desc_def group_sums_def sample_big_rows_def sum64_def wrap64_def)
  have s: "sum64 (map (metric_col Purchases) sample_big_rows) = 9007199254740993"
    "sample_big_rows \<noteq> []"
    by (simp_all add: sample_big_rows_def sum64_def wrap64_def)
  have c: "answer sample_big_rows sample_today None False (Some Wholesaler) Purchases False =
     Inr \<lparr>resp_type = ''chart'', resp_title = Some ''Purchases by Wholesaler'', resp_text = None,
          resp_labels = Some [''w1''],
          resp_datasets = Some [\<lparr>label = ''purchases'', data = [9007199254740993]\<rparr>],
          resp_table = None\<rparr>"
    by (simp add: answer_grouped[OF fw] i g round2_def)
  have t: "answer sample_big_rows sample_today None False None Purchases False =
     Inr \<lparr>resp_type = ''text'', resp_title = Some ''Purchases'',
          resp_text = Some ''Purchases = 9,007,199,254,740,992.00'', resp_labels = None,
          resp_datasets = None, resp_table = None\<rparr>"
    by (simp add: answer_text[OF fw] i s float_of_int64_samples fmt_2f_samples)
  have n: "sum_list [9007199254740993] \<noteq> (9007199254740992 :: int)"
    by simp
  from c t n show ?thesis
    by (intro conjI)
qed

subsection \<open>A filter value that matches no row\<close>







end
